theory Spec2Isabelle
  imports Complex_Main "HOL-Library.List_Lexorder" "HOL-Library.Char_ord"
begin

section \<open>Numbers of the host language\<close>

text \<open>
  The components compute with JavaScript numbers, which are doubles: finite values,
  the two infinities and \<open>NaN\<close>. A finite value is modelled by the real it stands for.
  An operation whose exact result lies beyond the range of finite doubles gives an
  infinity, as it does in the code: the exact result rounds to a finite double when
  its magnitude is below \<open>2^1024 - 2^970\<close> (halfway between the largest double and
  \<open>2^1024\<close>) and to an infinity from there on. Rounding within the range is not
  modelled: a result inside the range is kept exact.
\<close>

datatype jsnum = Num real | PInf | NInf | NaN

text \<open>The bound \<open>2^1024 - 2^970\<close>, written out.\<close>

definition maxRange :: real where
  "maxRange =
     179769313486231580793728971405303415079934132710037826936173778980444968292764750946649017977587207096330286416692887910946555547851940402630657488671505820681908902000708383676273854845817711531764475730270069855571366959622842914819860834936475292719074168444365510704342711559699508093042880177904174497792"

definition inRange :: "real \<Rightarrow> bool" where
  "inRange r = (- maxRange < r \<and> r < maxRange)"

text \<open>The double an exact result becomes.\<close>

definition dbl :: "real \<Rightarrow> jsnum" where
  "dbl r = (if maxRange \<le> r then PInf else if r \<le> - maxRange then NInf else Num r)"

text \<open>Truthiness of a number: \<open>0\<close> and \<open>NaN\<close> are falsy.\<close>

fun truthy :: "jsnum \<Rightarrow> bool" where
  "truthy (Num r) = (r \<noteq> 0)"
| "truthy PInf = True"
| "truthy NInf = True"
| "truthy NaN = False"

text \<open>\<open>x || 0\<close> for a number \<open>x\<close>.\<close>

definition orZero :: "jsnum \<Rightarrow> jsnum" where
  "orZero x = (if truthy x then x else Num 0)"

text \<open>
  Subtraction: \<open>NaN\<close> if either operand is; two infinities of the same sign give
  \<open>NaN\<close>; otherwise an infinite operand decides the result.
\<close>

fun js_sub :: "jsnum \<Rightarrow> jsnum \<Rightarrow> jsnum" where
  "js_sub NaN _ = NaN"
| "js_sub _ NaN = NaN"
| "js_sub PInf PInf = NaN"
| "js_sub NInf NInf = NaN"
| "js_sub PInf _ = PInf"
| "js_sub NInf _ = NInf"
| "js_sub _ PInf = NInf"
| "js_sub _ NInf = PInf"
| "js_sub (Num a) (Num b) = dbl (a - b)"

text \<open>
  Multiplication: \<open>NaN\<close> if either operand is; an infinity times zero is \<open>NaN\<close>;
  otherwise an infinite operand gives an infinity with the product's sign.
\<close>

fun js_mul :: "jsnum \<Rightarrow> jsnum \<Rightarrow> jsnum" where
  "js_mul NaN _ = NaN"
| "js_mul _ NaN = NaN"
| "js_mul (Num a) (Num b) = dbl (a * b)"
| "js_mul (Num a) y =
     (if a = 0 then NaN else if (0 < a) = (y = PInf) then PInf else NInf)"
| "js_mul x (Num b) =
     (if b = 0 then NaN else if (0 < b) = (x = PInf) then PInf else NInf)"
| "js_mul x y = (if x = y then PInf else NInf)"

text \<open>\<open>Math.max(a, b)\<close>: \<open>NaN\<close> if either argument is.\<close>

fun js_max :: "jsnum \<Rightarrow> jsnum \<Rightarrow> jsnum" where
  "js_max NaN _ = NaN"
| "js_max _ NaN = NaN"
| "js_max PInf _ = PInf"
| "js_max _ PInf = PInf"
| "js_max NInf y = y"
| "js_max x NInf = x"
| "js_max (Num a) (Num b) = Num (max a b)"

text \<open>
  A number placed in a request body goes through \<open>JSON.stringify\<close>, which writes a
  non-finite number as \<open>null\<close>. A column value is \<open>None\<close> for \<open>null\<close>.
\<close>

fun toJSON :: "jsnum \<Rightarrow> real option" where
  "toJSON (Num r) = Some r"
| "toJSON PInf = None"
| "toJSON NInf = None"
| "toJSON NaN = None"

text \<open>A nullable column read back: \<open>v || 0\<close>.\<close>

definition nullOrZero :: "real option \<Rightarrow> real" where
  "nullOrZero v = (case v of None \<Rightarrow> 0 | Some r \<Rightarrow> if r \<noteq> 0 then r else 0)"

subsection \<open>parseFloat\<close>

text \<open>
  The text of an input is a string of code units below 256. \<open>parseFloat\<close> skips
  leading white space (tab, line feed, vertical tab, form feed, carriage return, space
  and no-break space are the white space below 256) and reads the longest prefix that
  is a decimal literal: an optional sign, then either the word \<open>Infinity\<close> or digits
  with an optional fraction (or a fraction alone) and an exponent when at least one
  digit follows the exponent mark. Without such a prefix the result is \<open>NaN\<close>. A
  literal beyond the range of finite doubles reads as an infinity.
\<close>

definition isWhite :: "char \<Rightarrow> bool" where
  "isWhite c = ((of_char c :: nat) = 32 \<or> (of_char c :: nat) = 160
                \<or> (9 \<le> (of_char c :: nat) \<and> (of_char c :: nat) \<le> 13))"

definition isDigit :: "char \<Rightarrow> bool" where
  "isDigit c = (48 \<le> (of_char c :: nat) \<and> (of_char c :: nat) \<le> 57)"

definition digitsVal :: "string \<Rightarrow> nat" where
  "digitsVal ds = foldl (\<lambda>n c. 10 * n + (of_char c - 48)) 0 ds"

definition signOf :: "string \<Rightarrow> bool \<times> string" where
  "signOf s = (case s of
       [] \<Rightarrow> (False, [])
     | c # r \<Rightarrow> if c = CHR ''-'' then (True, r)
                else if c = CHR ''+'' then (False, r) else (False, s))"

definition exponentPart :: "string \<Rightarrow> int" where
  "exponentPart s = (case s of
       [] \<Rightarrow> 0
     | c # r \<Rightarrow>
         if c = CHR ''e'' \<or> c = CHR ''E'' then
           (let (neg, r') = signOf r; ds = takeWhile isDigit r'
            in if ds = [] then 0
               else if neg then - int (digitsVal ds) else int (digitsVal ds))
         else 0)"

definition pow10 :: "int \<Rightarrow> real" where
  "pow10 e = (if 0 \<le> e then 10 ^ nat e else 1 / 10 ^ nat (- e))"

definition parseFloat :: "string \<Rightarrow> jsnum" where
  "parseFloat s =
     (let (neg, u) = signOf (dropWhile isWhite s);
          ip = takeWhile isDigit u;
          r1 = dropWhile isDigit u;
          (fp, r2) = (case r1 of
                        [] \<Rightarrow> ([], [])
                      | c # r \<Rightarrow> if c = CHR ''.''
                                 then (takeWhile isDigit r, dropWhile isDigit r)
                                 else ([], r1))
      in if take 8 u = ''Infinity'' then (if neg then NInf else PInf)
         else if ip = [] \<and> fp = [] then NaN
         else
           (let m = (real (digitsVal ip) + real (digitsVal fp) / 10 ^ length fp)
                      * pow10 (exponentPart r2)
            in dbl (if neg then - m else m)))"

section \<open>Dates\<close>

text \<open>
  A date string \<open>yyyy-MM-dd\<close> (a period key, a record date) is the triple of its
  fields, months counted from 1.
\<close>

record ymd =
  year :: int
  month :: nat
  day :: nat

definition ymd_less :: "ymd \<Rightarrow> ymd \<Rightarrow> bool" where
  "ymd_less a b =
     (year a < year b \<or> (year a = year b \<and>
        (month a < month b \<or> (month a = month b \<and> day a < day b))))"

definition ymd_le :: "ymd \<Rightarrow> ymd \<Rightarrow> bool" where
  "ymd_le a b = (a = b \<or> ymd_less a b)"

text \<open>
  A \<open>Date\<close> object is a point in time; all the getters and setters the components use
  work on its fields in local time, so it is modelled by those fields: the local
  calendar date (months counted from 0, as \<open>getMonth\<close> does) and the local time of
  day in minutes. Local time is UTC plus a fixed offset (no daylight saving).
\<close>

record Date =
  getFullYear :: int
  getMonth :: nat
  getDate :: nat
  minuteOfDay :: int

definition isLeapYear :: "int \<Rightarrow> bool" where
  "isLeapYear y = (y mod 4 = 0 \<and> (y mod 100 \<noteq> 0 \<or> y mod 400 = 0))"

definition daysInMonth :: "int \<Rightarrow> nat \<Rightarrow> nat" where
  "daysInMonth y m =
     (if m = 1 then (if isLeapYear y then 29 else 28)
      else if m = 3 \<or> m = 5 \<or> m = 8 \<or> m = 10 then 30 else 31)"

text \<open>The calendar day before (year, month from 0, day).\<close>

definition dayBefore :: "int \<Rightarrow> nat \<Rightarrow> nat \<Rightarrow> int \<times> nat \<times> nat" where
  "dayBefore y m d =
     (if 1 < d then (y, m, d - 1)
      else if m = 0 then (y - 1, 11, 31)
      else (y, m - 1, daysInMonth y (m - 1)))"

text \<open>
  \<open>new Date('yyyy-MM-dd')\<close>: a date-only string denotes midnight UTC of that day. With
  the local clock \<open>utcOffset\<close> minutes ahead of UTC (between \<open>-1440\<close> and \<open>1440\<close>) the
  local fields are the same day at \<open>utcOffset\<close> minutes past midnight, or, when the
  offset is negative, the day before.
\<close>

definition newDate :: "int \<Rightarrow> ymd \<Rightarrow> Date" where
  "newDate utcOffset k =
     (if 0 \<le> utcOffset then
        \<lparr>getFullYear = year k, getMonth = month k - 1, getDate = day k,
         minuteOfDay = utcOffset\<rparr>
      else
        (let (y, m, d) = dayBefore (year k) (month k - 1) (day k)
         in \<lparr>getFullYear = y, getMonth = m, getDate = d,
             minuteOfDay = 1440 + utcOffset\<rparr>))"

text \<open>
  A day number beyond the end of its month runs over into the following months, as the
  day arithmetic of \<open>setMonth\<close> has it.
\<close>

function normDay :: "int \<Rightarrow> nat \<Rightarrow> nat \<Rightarrow> int \<times> nat \<times> nat" where
  "normDay y m d =
     (if d \<le> daysInMonth y m then (y, m, d)
      else if m = 11 then normDay (y + 1) 0 (d - daysInMonth y m)
      else normDay y (m + 1) (d - daysInMonth y m))"
  by pat_completeness auto
termination
  by (relation "measure (\<lambda>(y, m, d). d)") (auto simp: daysInMonth_def)

text \<open>
  \<open>date.setMonth(monthValue)\<close>: the month may lie outside 0..11 and then moves the
  year; the day of the month and the time of day are kept.
\<close>

definition setMonth :: "Date \<Rightarrow> int \<Rightarrow> Date" where
  "setMonth dt monthValue =
     (let ym = getFullYear dt + monthValue div 12;
          mn = nat (monthValue mod 12);
          (y, m, d) = normDay ym mn (getDate dt)
      in dt\<lparr>getFullYear := y, getMonth := m, getDate := d\<rparr>)"

definition startOfMonth :: "Date \<Rightarrow> Date" where
  "startOfMonth dt = dt\<lparr>getDate := 1, minuteOfDay := 0\<rparr>"

text \<open>\<open>format(date, 'yyyy-MM-dd')\<close>\<close>

definition format_ymd :: "Date \<Rightarrow> ymd" where
  "format_ymd dt = \<lparr>year = getFullYear dt, month = getMonth dt + 1, day = getDate dt\<rparr>"

section \<open>The repository\<close>

text \<open>
  Rows of the tables the components read and write. A nullable numeric column is a
  \<open>real option\<close>. Field names that several tables share carry a prefix on all but the
  first table. Row identifiers are generated by the database; they are numbered here.
\<close>

record MonthlyStock =
  row_id :: nat
  station_id :: string
  product_type :: string
  month_year :: ymd
  opening_stock :: real
  actual_closing_stock :: "real option"
  excess :: "real option"

record FuelRecord =
  station_code :: string
  pump_id :: string
  fuel_product_type :: string
  record_date :: ymd
  fuel_opening_stock :: "real option"
  closing_stock :: "real option"
  meter_opening :: "real option"
  meter_closing :: "real option"
  sales_volume :: "real option"
  price_per_litre :: "real option"
  total_sales :: "real option"
  input_mode :: string

record Expense =
  expense_station_id :: string
  expense_date :: ymd
  amount :: "real option"

record database =
  monthly_stock :: "MonthlyStock list"
  fuel_records :: "FuelRecord list"
  expenses :: "Expense list"

text \<open>
  The surroundings of one operation: the offset of the local clock from UTC in minutes,
  and whether the repository's reads and writes fail while it runs (network,
  permission).
\<close>

record env =
  utcOffset :: int
  readsFail :: bool
  writesFail :: bool

datatype repo_error = Conflict | DependencyFailure

text \<open>
  Modelled from the spec: the remote repository (its client and the table schema are
  not part of the sources). \<open>find\<close> returns the rows that satisfy the filters;
  \<open>insert\<close> into \<open>monthly_stock\<close> is rejected when a row with the same station,
  product and period exists (at most one record per key) and otherwise adds the row
  with closing stock and excess absent; \<open>update\<close> changes the rows with the given
  identifier; any call may fail as a whole.
\<close>

definition select_monthly_stock ::
  "env \<Rightarrow> database \<Rightarrow> (MonthlyStock \<Rightarrow> bool) \<Rightarrow> repo_error + MonthlyStock list" where
  "select_monthly_stock e db flt =
     (if readsFail e then Inl DependencyFailure else Inr (filter flt (monthly_stock db)))"

definition select_fuel_records ::
  "env \<Rightarrow> database \<Rightarrow> (FuelRecord \<Rightarrow> bool) \<Rightarrow> repo_error + FuelRecord list" where
  "select_fuel_records e db flt =
     (if readsFail e then Inl DependencyFailure else Inr (filter flt (fuel_records db)))"


text \<open>\<open>.single()\<close>: the row when exactly one came back, no data otherwise.\<close>

definition single :: "repo_error + 'a list \<Rightarrow> 'a option" where
  "single res = (case res of Inr [r] \<Rightarrow> Some r | _ \<Rightarrow> None)"

definition fresh_id :: "MonthlyStock list \<Rightarrow> nat" where
  "fresh_id rows = Suc (fold max (map row_id rows) 0)"

definition same_key :: "string \<Rightarrow> string \<Rightarrow> ymd \<Rightarrow> MonthlyStock \<Rightarrow> bool" where
  "same_key st pt my r = (station_id r = st \<and> product_type r = pt \<and> month_year r = my)"

definition insert_monthly_stock ::
  "env \<Rightarrow> database \<Rightarrow> string \<Rightarrow> string \<Rightarrow> ymd \<Rightarrow> real \<Rightarrow> repo_error + database" where
  "insert_monthly_stock e db st pt my os =
     (if writesFail e then Inl DependencyFailure
      else if list_ex (same_key st pt my) (monthly_stock db) then Inl Conflict
      else Inr (db\<lparr>monthly_stock := monthly_stock db @
             [\<lparr>row_id = fresh_id (monthly_stock db), station_id = st, product_type = pt,
               month_year = my, opening_stock = os,
               actual_closing_stock = None, excess = None\<rparr>]\<rparr>))"

definition update_monthly_stock ::
  "env \<Rightarrow> database \<Rightarrow> nat \<Rightarrow> real option \<Rightarrow> real option \<Rightarrow> repo_error + database" where
  "update_monthly_stock e db i closing exc =
     (if writesFail e then Inl DependencyFailure
      else Inr (db\<lparr>monthly_stock :=
             map (\<lambda>r. if row_id r = i
                       then r\<lparr>actual_closing_stock := closing, excess := exc\<rparr> else r)
                 (monthly_stock db)\<rparr>))"

definition insert_fuel_record :: "env \<Rightarrow> database \<Rightarrow> FuelRecord \<Rightarrow> repo_error + database" where
  "insert_fuel_record e db r =
     (if writesFail e then Inl DependencyFailure
      else Inr (db\<lparr>fuel_records := fuel_records db @ [r]\<rparr>))"

section \<open>Notifications and component state\<close>

text \<open>
  A toast is either the one titled "Success" (its description is not kept) or the
  destructive one titled "Error", kept with its description. Every component has the
  station it shows, a loading flag and the toasts it has raised so far, oldest first.
\<close>

datatype toast = ToastSuccess | ToastError string

record component =
  stationId :: string
  loading :: bool
  toasts :: "toast list"

definition toast_of :: "toast \<Rightarrow> 'a component_scheme \<Rightarrow> 'a component_scheme" where
  "toast_of t c = c\<lparr>toasts := toasts c @ [t]\<rparr>"

section \<open>Stock management\<close>

record StockManagement = component +
  monthlyStocks :: "MonthlyStock list"
  selectedMonth :: ymd
  isDialogOpen :: bool
  selectedStock :: "MonthlyStock option"
  actualClosingStock :: string

text \<open>\<open>x || 0\<close> for a number \<open>x\<close> that is not \<open>NaN\<close>.\<close>

definition realOrZero :: "real \<Rightarrow> real" where
  "realOrZero r = (if r \<noteq> 0 then r else 0)"

definition loadMonthlyStocks ::
  "env \<Rightarrow> StockManagement \<times> database \<Rightarrow> StockManagement \<times> database" where
  "loadMonthlyStocks e = (\<lambda>(c, db).
     case select_monthly_stock e db
            (\<lambda>r. station_id r = stationId c \<and> month_year r = selectedMonth c) of
       Inl err \<Rightarrow> (c, db)
     | Inr data \<Rightarrow> (c\<lparr>monthlyStocks := sort_key product_type data\<rparr>, db))"

text \<open>The key of the month before, as \<open>initializeMonthlyStock\<close> computes it.\<close>

definition lastMonthFormatted :: "int \<Rightarrow> ymd \<Rightarrow> ymd" where
  "lastMonthFormatted tz selMonth =
     (let lastMonth = newDate tz selMonth;
          lastMonth' = setMonth lastMonth (int (getMonth lastMonth) - 1)
      in format_ymd (startOfMonth lastMonth'))"

definition initializeMonthlyStock ::
  "env \<Rightarrow> string \<Rightarrow> StockManagement \<times> database \<Rightarrow> StockManagement \<times> database" where
  "initializeMonthlyStock e productType = (\<lambda>(c, db).
     let lastMonthData = single (select_monthly_stock e db
            (\<lambda>r. station_id r = stationId c \<and> product_type r = productType
                 \<and> month_year r = lastMonthFormatted (utcOffset e) (selectedMonth c)));
         openingStock = (case lastMonthData of
                           None \<Rightarrow> 0
                         | Some r \<Rightarrow> nullOrZero (actual_closing_stock r))
     in case insert_monthly_stock e db (stationId c) productType (selectedMonth c)
               openingStock of
          Inl err \<Rightarrow> (toast_of (ToastError ''Failed to initialize stock'') c, db)
        | Inr db' \<Rightarrow> loadMonthlyStocks e (toast_of ToastSuccess c, db'))"

definition updateActualClosingStock ::
  "env \<Rightarrow> StockManagement \<times> database \<Rightarrow> StockManagement \<times> database" where
  "updateActualClosingStock e = (\<lambda>(c, db).
     case selectedStock c of
       None \<Rightarrow> (c, db)
     | Some stock \<Rightarrow>
         (let actualClosing = parseFloat (actualClosingStock c);
              excessValue = js_sub (Num (opening_stock stock)) actualClosing
          in case update_monthly_stock e db (row_id stock)
                    (toJSON actualClosing) (toJSON excessValue) of
               Inl err \<Rightarrow>
                 (toast_of (ToastError ''Failed to update stock'') (c\<lparr>loading := False\<rparr>), db)
             | Inr db' \<Rightarrow>
                 loadMonthlyStocks e
                   ((toast_of ToastSuccess c)
                      \<lparr>loading := False, isDialogOpen := False, selectedStock := None,
                       actualClosingStock := []\<rparr>, db')))"

record estimate =
  totalSalesVolume :: real
  estimatedStock :: real

text \<open>The exclusive end of the date range, as \<open>calculateEstimatedStock\<close> computes it.\<close>

definition monthEnd :: "int \<Rightarrow> ymd \<Rightarrow> ymd" where
  "monthEnd tz selMonth =
     (let nextMonth = newDate tz selMonth;
          nextMonth' = setMonth nextMonth (int (getMonth nextMonth) + 1)
      in format_ymd nextMonth')"

definition calculateEstimatedStock ::
  "env \<Rightarrow> string \<Rightarrow> StockManagement \<times> database \<Rightarrow> estimate" where
  "calculateEstimatedStock e productType = (\<lambda>(c, db).
     case select_fuel_records e db
            (\<lambda>r. station_code r = stationId c \<and> fuel_product_type r = productType
                 \<and> ymd_le (selectedMonth c) (record_date r)
                 \<and> ymd_less (record_date r) (monthEnd (utcOffset e) (selectedMonth c))) of
       Inl err \<Rightarrow> \<lparr>totalSalesVolume = 0, estimatedStock = 0\<rparr>
     | Inr salesData \<Rightarrow>
         (let total = realOrZero
                (foldl (\<lambda>sum record. sum + nullOrZero (sales_volume record)) 0 salesData);
              stock = find (\<lambda>s. product_type s = productType) (monthlyStocks c);
              openingStock = (case stock of
                                None \<Rightarrow> 0
                              | Some s \<Rightarrow> realOrZero (opening_stock s))
          in \<lparr>totalSalesVolume = total, estimatedStock = openingStock - total\<rparr>))"

section \<open>The fuel-record form\<close>

record Pump =
  pump_row_id :: string
  pump_number :: nat
  pump_product_type :: string
  tank_id :: string

record ProductPrice =
  pp_product_type :: string
  pp_price_per_litre :: real

record FuelRecordForm = component +
  pumps :: "Pump list"
  prices :: "ProductPrice list"
  selectedPump :: string
  recordDate :: ymd
  openingStock :: string
  meterOpening :: string
  meterClosing :: string
  closingStock :: string

definition calculateSalesVolume :: "FuelRecordForm \<Rightarrow> jsnum" where
  "calculateSalesVolume c =
     (let opening = orZero (parseFloat (meterOpening c));
          closing = orZero (parseFloat (meterClosing c))
      in js_max (Num 0) (js_sub closing opening))"

definition getProductPrice :: "FuelRecordForm \<Rightarrow> string \<Rightarrow> jsnum" where
  "getProductPrice c productType =
     (case find (\<lambda>p. pp_product_type p = productType) (prices c) of
        None \<Rightarrow> Num 0
      | Some price \<Rightarrow> orZero (Num (pp_price_per_litre price)))"

definition handleSubmit ::
  "env \<Rightarrow> FuelRecordForm \<times> database \<Rightarrow> FuelRecordForm \<times> database" where
  "handleSubmit e = (\<lambda>(c, db).
     if selectedPump c = [] then (toast_of (ToastError ''Please select a pump'') c, db)
     else
       case find (\<lambda>p. pump_row_id p = selectedPump c) (pumps c) of
         None \<Rightarrow>
           (toast_of (ToastError ''Failed to save fuel record'') (c\<lparr>loading := False\<rparr>), db)
       | Some pump \<Rightarrow>
           (let salesVolume = calculateSalesVolume c;
                pricePerLitre = getProductPrice c (pump_product_type pump);
                totalSales = js_mul salesVolume pricePerLitre
            in case insert_fuel_record e db
                      \<lparr>station_code = stationId c,
                       pump_id = selectedPump c,
                       fuel_product_type = pump_product_type pump,
                       record_date = recordDate c,
                       fuel_opening_stock = toJSON (orZero (parseFloat (openingStock c))),
                       closing_stock = toJSON (orZero (parseFloat (closingStock c))),
                       meter_opening = toJSON (orZero (parseFloat (meterOpening c))),
                       meter_closing = toJSON (orZero (parseFloat (meterClosing c))),
                       sales_volume = toJSON salesVolume,
                       price_per_litre = toJSON pricePerLitre,
                       total_sales = toJSON totalSales,
                       input_mode = ''manual''\<rparr> of
                 Inl err \<Rightarrow>
                   (toast_of (ToastError ''Failed to save fuel record'')
                      (c\<lparr>loading := False\<rparr>), db)
               | Inr db' \<Rightarrow>
                   ((toast_of ToastSuccess c)
                      \<lparr>loading := False, selectedPump := [], openingStock := [],
                       meterOpening := [], meterClosing := [], closingStock := []\<rparr>,
                    db')))"

section \<open>The daily summary\<close>

record SalesData =
  sd_product_type :: string
  sd_total_sales :: real
  total_volume :: real

record ExpenseData =
  total_expenses :: real

record DailySummary = component +
  salesData :: "SalesData list"
  expenseData :: "ExpenseData list"
  selectedDate :: ymd






definition totalSales :: "DailySummary \<Rightarrow> real" where
  "totalSales c = foldl (\<lambda>sum item. sum + sd_total_sales item) 0 (salesData c)"



section \<open>Notions used in the statements\<close>

subsection \<open>Period keys\<close>

text \<open>
  A period key is the first day of a calendar month. The month before and the month
  after a key are written here as plain calendar arithmetic: the month moves by one,
  the year rolls over at January and December, and the day stays 1.
\<close>

definition isPeriodKey :: "ymd \<Rightarrow> bool" where
  "isPeriodKey k = (1 \<le> month k \<and> month k \<le> 12 \<and> day k = 1)"

definition previousPeriodKey :: "ymd \<Rightarrow> ymd" where
  "previousPeriodKey k =
     (if month k = 1 then \<lparr>year = year k - 1, month = 12, day = 1\<rparr>
      else \<lparr>year = year k, month = month k - 1, day = 1\<rparr>)"

definition nextPeriodKey :: "ymd \<Rightarrow> ymd" where
  "nextPeriodKey k =
     (if month k = 12 then \<lparr>year = year k + 1, month = 1, day = 1\<rparr>
      else \<lparr>year = year k, month = month k + 1, day = 1\<rparr>)"

subsection \<open>Stock records\<close>

text \<open>Closing stock and excess are both present or both absent.\<close>

definition paired :: "MonthlyStock \<Rightarrow> bool" where
  "paired r = ((actual_closing_stock r = None) = (excess r = None))"

text \<open>At most one record per station, product and period.\<close>

definition unique_keys :: "MonthlyStock list \<Rightarrow> bool" where
  "unique_keys rows =
     distinct (map (\<lambda>r. (station_id r, product_type r, month_year r)) rows)"

text \<open>
  A session on the stock page: the two operations, each in the surroundings it runs in,
  interleaved with anything the user does to the page (choosing a month, picking a
  record, typing an amount), which may leave the page in any state.
\<close>

datatype step = InitializePeriod env string | FinalizePeriod env | UserInput StockManagement

fun run :: "step list \<Rightarrow> StockManagement \<times> database \<Rightarrow> StockManagement \<times> database" where
  "run [] s = s"
| "run (InitializePeriod e productType # steps) s =
     run steps (initializeMonthlyStock e productType s)"
| "run (FinalizePeriod e # steps) s = run steps (updateActualClosingStock e s)"
| "run (UserInput c # steps) s = run steps (c, snd s)"

text \<open>Where a record has an excess, it has a closing stock.\<close>

definition excess_has_closing :: "MonthlyStock \<Rightarrow> bool" where
  "excess_has_closing r = (excess r = None \<or> actual_closing_stock r \<noteq> None)"

text \<open>
  A finalization stays in range when the typed amount, if it is a finite number, is
  no further from the selected record's opening stock than finite doubles reach. A
  session has no overflow when each of its finalizations stays in range on the page
  it runs on.
\<close>

definition finalize_in_range :: "StockManagement \<Rightarrow> bool" where
  "finalize_in_range c =
     (case selectedStock c of
        None \<Rightarrow> True
      | Some stock \<Rightarrow>
          (case parseFloat (actualClosingStock c) of
             Num a \<Rightarrow> inRange (opening_stock stock - a)
           | _ \<Rightarrow> True))"

fun no_overflow :: "step list \<Rightarrow> StockManagement \<times> database \<Rightarrow> bool" where
  "no_overflow [] s = True"
| "no_overflow (InitializePeriod e productType # steps) s =
     no_overflow steps (initializeMonthlyStock e productType s)"
| "no_overflow (FinalizePeriod e # steps) s =
     (finalize_in_range (fst s) \<and> no_overflow steps (updateActualClosingStock e s))"
| "no_overflow (UserInput c # steps) s = no_overflow steps (c, snd s)"

subsection \<open>Ledger entries and sums\<close>

text \<open>
  The ledger entries of a station and product in the month of a period key: from the
  key, inclusive, to the next key, exclusive.
\<close>

definition monthSales :: "string \<Rightarrow> ymd \<Rightarrow> string \<Rightarrow> database \<Rightarrow> FuelRecord list" where
  "monthSales st k pt db =
     filter (\<lambda>r. station_code r = st \<and> fuel_product_type r = pt
               \<and> ymd_le k (record_date r) \<and> ymd_less (record_date r) (nextPeriodKey k))
       (fuel_records db)"





text \<open>The price per litre of a product: that of its price row, 0 without one.\<close>

definition priceOf :: "FuelRecordForm \<Rightarrow> string \<Rightarrow> real" where
  "priceOf c productType =
     (case find (\<lambda>p. pp_product_type p = productType) (prices c) of
        None \<Rightarrow> 0
      | Some price \<Rightarrow> pp_price_per_litre price)"

subsection \<open>Example data\<close>

text \<open>
  Two surroundings with a working repository: a browser in Lagos (one hour ahead of
  UTC) and one in New York (five hours behind).
\<close>

definition lagos :: env where
  "lagos = \<lparr>utcOffset = 60, readsFail = False, writesFail = False\<rparr>"

definition new_york :: env where
  "new_york = \<lparr>utcOffset = - 300, readsFail = False, writesFail = False\<rparr>"

text \<open>
  Station S1, product PMS: February 2024 reconciled (opening 1000, closing 150, excess
  850), March 2024 open with the 150 carried forward.
\<close>

definition february_row :: MonthlyStock where
  "february_row =
     \<lparr>row_id = 1, station_id = ''S1'', product_type = ''PMS'',
      month_year = \<lparr>year = 2024, month = 2, day = 1\<rparr>, opening_stock = 1000,
      actual_closing_stock = Some 150, excess = Some 850\<rparr>"

definition march_row :: MonthlyStock where
  "march_row =
     \<lparr>row_id = 2, station_id = ''S1'', product_type = ''PMS'',
      month_year = \<lparr>year = 2024, month = 3, day = 1\<rparr>, opening_stock = 150,
      actual_closing_stock = None, excess = None\<rparr>"

text \<open>A sale of 10 litres on 30 March 2024.\<close>

definition late_march_sale :: FuelRecord where
  "late_march_sale =
     \<lparr>station_code = ''S1'', pump_id = ''P1'', fuel_product_type = ''PMS'',
      record_date = \<lparr>year = 2024, month = 3, day = 30\<rparr>,
      fuel_opening_stock = Some 150, closing_stock = Some 140,
      meter_opening = Some 5000, meter_closing = Some 5010, sales_volume = Some 10,
      price_per_litre = Some 650, total_sales = Some 6500, input_mode = ''manual''\<rparr>"

definition db_february :: database where
  "db_february = \<lparr>monthly_stock = [february_row], fuel_records = [], expenses = []\<rparr>"

definition db_march :: database where
  "db_march =
     \<lparr>monthly_stock = [february_row, march_row], fuel_records = [late_march_sale],
      expenses = []\<rparr>"

text \<open>The stock page of station S1 showing March 2024, before and after loading.\<close>

definition page_march :: StockManagement where
  "page_march =
     \<lparr>stationId = ''S1'', loading = False, toasts = [], monthlyStocks = [],
      selectedMonth = \<lparr>year = 2024, month = 3, day = 1\<rparr>, isDialogOpen = False,
      selectedStock = None, actualClosingStock = []\<rparr>"

definition page_march_loaded :: StockManagement where
  "page_march_loaded = page_march\<lparr>monthlyStocks := [march_row]\<rparr>"

text \<open>The dialog open on the March record, with an amount typed.\<close>

definition dialog_march :: "string \<Rightarrow> StockManagement" where
  "dialog_march typed =
     page_march_loaded\<lparr>isDialogOpen := True, selectedStock := Some march_row,
                       actualClosingStock := typed\<rparr>"

text \<open>An open record with opening stock 500, and the dialog open on it.\<close>

definition row_500 :: MonthlyStock where
  "row_500 = march_row\<lparr>row_id := 7, opening_stock := 500\<rparr>"

definition db_500 :: database where
  "db_500 = \<lparr>monthly_stock = [row_500], fuel_records = [], expenses = []\<rparr>"

definition dialog_500 :: "string \<Rightarrow> StockManagement" where
  "dialog_500 typed =
     page_march\<lparr>monthlyStocks := [row_500], isDialogOpen := True,
                selectedStock := Some row_500, actualClosingStock := typed\<rparr>"

text \<open>
  The amount \<open>1e308\<close>, a finite double, and the record of March open at that opening
  stock (February was closed at \<open>1e308\<close>), with the dialog open on it.
\<close>

definition e308 :: real where
  "e308 = 10 ^ 308"

definition row_b :: MonthlyStock where
  "row_b = march_row\<lparr>opening_stock := e308\<rparr>"

definition db_b :: database where
  "db_b = \<lparr>monthly_stock = [row_b], fuel_records = [], expenses = []\<rparr>"

definition dialog_on :: "MonthlyStock \<Rightarrow> string \<Rightarrow> StockManagement" where
  "dialog_on stock typed =
     page_march\<lparr>monthlyStocks := [stock], isDialogOpen := True,
                selectedStock := Some stock, actualClosingStock := typed\<rparr>"

text \<open>
  The fuel-record form of station S1 with a PMS pump priced at 650 and an LPG pump
  without a price row, filled in with the four amounts.
\<close>

definition form_filled :: "string \<Rightarrow> string \<Rightarrow> string \<Rightarrow> string \<Rightarrow> string \<Rightarrow> FuelRecordForm" where
  "form_filled pump os cs mo mc =
     \<lparr>stationId = ''S1'', loading = True, toasts = [],
      pumps = [\<lparr>pump_row_id = ''P1'', pump_number = 1, pump_product_type = ''PMS'',
                tank_id = ''T1''\<rparr>,
               \<lparr>pump_row_id = ''P2'', pump_number = 2, pump_product_type = ''LPG'',
                tank_id = ''T2''\<rparr>],
      prices = [\<lparr>pp_product_type = ''PMS'', pp_price_per_litre = 650\<rparr>],
      selectedPump = pump,
      recordDate = \<lparr>year = 2024, month = 3, day = 5\<rparr>,
      openingStock = os, meterOpening = mo, meterClosing = mc, closingStock = cs\<rparr>"

definition db_empty :: database where
  "db_empty = \<lparr>monthly_stock = [], fuel_records = [], expenses = []\<rparr>"




section \<open>Numbers\<close>

lemmas parse_defs =
  parseFloat_def signOf_def isWhite_def isDigit_def digitsVal_def exponentPart_def
  pow10_def dbl_def maxRange_def

lemma maxRange_value: "maxRange = 2 ^ 1024 - 2 ^ 970"
  by (simp add: maxRange_def)

lemma maxRange_pos: "0 < maxRange"
  by (simp add: maxRange_def)

lemma toJSON_dbl: "toJSON (dbl x) = (if inRange x then Some x else None)"
  by (simp add: dbl_def inRange_def)

lemma dbl_zero: "dbl 0 = Num 0"
  using maxRange_pos by (simp add: dbl_def)


lemma orZero_NaN: "orZero NaN = Num 0"
  by (simp add: orZero_def)

lemma realOrZero_id: "realOrZero r = r"
  by (simp add: realOrZero_def)

lemma nullOrZero_case: "nullOrZero v = (case v of None \<Rightarrow> 0 | Some x \<Rightarrow> x)"
  by (simp add: nullOrZero_def split: option.splits)

lemma foldl_plus: "foldl (\<lambda>sum x. sum + f x) (a::real) xs = a + sum_list (map f xs)"
  by (induction xs arbitrary: a) simp_all

section \<open>Month arithmetic\<close>

lemmas date_defs =
  newDate_def dayBefore_def daysInMonth_def isLeapYear_def setMonth_def startOfMonth_def
  format_ymd_def

lemma daysInMonth_pos: "1 \<le> daysInMonth y m"
  by (simp add: daysInMonth_def)

lemma normDay_first: "normDay y m (Suc 0) = (y, m, Suc 0)"
  using daysInMonth_pos [of y m] by simp

text \<open>
  Where the local clock is at or ahead of UTC, the key that \<open>initializeMonthlyStock\<close>
  looks up is the first day of the month before, for every period key, January
  included.
\<close>

lemma lastMonthFormatted_ahead_of_UTC:
  assumes "0 \<le> tz" and "isPeriodKey k"
  shows "lastMonthFormatted tz k = previousPeriodKey k"
proof (cases "month k = 1")
  case True
  then show ?thesis
    using assms
    by (simp add: lastMonthFormatted_def newDate_def setMonth_def startOfMonth_def
        format_ymd_def previousPeriodKey_def isPeriodKey_def normDay_first
        del: normDay.simps)
next
  case False
  with assms have m: "2 \<le> month k" "month k \<le> 12" "day k = 1"
    by (auto simp: isPeriodKey_def)
  then have "(int (month k - 1) - 1) div 12 = 0"
    and "nat ((int (month k - 1) - 1) mod 12) = month k - 2"
    by auto
  then show ?thesis
    using assms m False
    by (simp add: lastMonthFormatted_def newDate_def setMonth_def startOfMonth_def
        format_ymd_def previousPeriodKey_def isPeriodKey_def normDay_first
        del: normDay.simps)
qed

text \<open>Likewise the end of the range that \<open>calculateEstimatedStock\<close> queries.\<close>

lemma monthEnd_ahead_of_UTC:
  assumes "0 \<le> tz" and "isPeriodKey k"
  shows "monthEnd tz k = nextPeriodKey k"
proof (cases "month k = 12")
  case True
  then show ?thesis
    using assms
    by (simp add: monthEnd_def newDate_def setMonth_def format_ymd_def nextPeriodKey_def
        isPeriodKey_def normDay_first del: normDay.simps)
next
  case False
  with assms have m: "1 \<le> month k" "month k \<le> 11" "day k = 1"
    by (auto simp: isPeriodKey_def)
  then have "(int (month k - 1) + 1) div 12 = 0"
    and "nat ((int (month k - 1) + 1) mod 12) = month k"
    by auto
  then show ?thesis
    using assms m False
    by (simp add: monthEnd_def newDate_def setMonth_def format_ymd_def nextPeriodKey_def
        isPeriodKey_def normDay_first del: normDay.simps)
qed

text \<open>
  C7. The claim: for every period key, \<open>initializePeriod\<close> computes the previous
  period key as the first day of the calendar month immediately before, with correct
  year rollover. The code does so only where the local clock is at or ahead of UTC
  (lemma \<open>lastMonthFormatted_ahead_of_UTC\<close>). It reads the key as midnight UTC and then
  works on local fields: five hours behind UTC the key 2024-03-01 is 29 February
  local time, one month back is 29 January, and the key looked up is 2024-01-01, two
  months before March instead of one.
\<close>

theorem C7_previous_key_behind_UTC:
  "lastMonthFormatted (- 300) \<lparr>year = 2024, month = 3, day = 1\<rparr>
     = \<lparr>year = 2024, month = 1, day = 1\<rparr>
   \<and> previousPeriodKey \<lparr>year = 2024, month = 3, day = 1\<rparr>
     = \<lparr>year = 2024, month = 2, day = 1\<rparr>"
  by (simp add: lastMonthFormatted_def previousPeriodKey_def date_defs)

section \<open>Initializing a period\<close>

lemma loadMonthlyStocks_snd: "snd (loadMonthlyStocks e (c, db)) = db"
  by (simp add: loadMonthlyStocks_def split: sum.splits)

lemma loadMonthlyStocks_toasts: "toasts (fst (loadMonthlyStocks e (c, db))) = toasts c"
  by (simp add: loadMonthlyStocks_def split: sum.splits)

lemma single_unique:
  assumes "distinct (map key rows)"
  shows "single (Inr (filter (\<lambda>r. key r = k) rows)) = find (\<lambda>r. key r = k) rows"
  using assms
proof (induction rows)
  case Nil
  then show ?case by (simp add: single_def)
next
  case (Cons x xs)
  show ?case
  proof (cases "key x = k")
    case True
    from Cons.prems have "key x \<notin> key ` set xs" by simp
    with True have "\<forall>r\<in>set xs. key r \<noteq> k" by blast
    then have "filter (\<lambda>r. key r = k) xs = []"
      by (simp add: filter_empty_conv)
    with True show ?thesis by (simp add: single_def)
  next
    case False
    with Cons show ?thesis by simp
  qed
qed

lemma same_key_fun:
  "same_key st pt my =
     (\<lambda>r. station_id r = st \<and> product_type r = pt \<and> month_year r = my)"
  by (simp add: fun_eq_iff same_key_def)

lemma single_same_key:
  assumes "unique_keys rows"
  shows "single (Inr (filter
            (\<lambda>r. station_id r = st \<and> product_type r = pt \<and> month_year r = my) rows))
           = find (same_key st pt my) rows"
  using assms
    single_unique [of "\<lambda>r. (station_id r, product_type r, month_year r)" rows "(st, pt, my)"]
  by (simp add: unique_keys_def same_key_fun)

text \<open>
  Where the local clock is at or ahead of UTC and the repository answers, initializing
  a period that has no record yet adds one record: its opening stock is the closing
  stock of the record of the month before when that record exists and is reconciled,
  and 0 otherwise; closing stock and excess are absent.
\<close>

lemma initialize_carries_forward_ahead_of_UTC:
  assumes "0 \<le> utcOffset e" and "isPeriodKey (selectedMonth c)"
      and "\<not> readsFail e" and "\<not> writesFail e"
      and "unique_keys (monthly_stock db)"
      and "\<not> list_ex (same_key (stationId c) pt (selectedMonth c)) (monthly_stock db)"
  shows "monthly_stock (snd (initializeMonthlyStock e pt (c, db))) = monthly_stock db @
           [\<lparr>row_id = fresh_id (monthly_stock db), station_id = stationId c,
             product_type = pt, month_year = selectedMonth c,
             opening_stock =
               (case find (same_key (stationId c) pt (previousPeriodKey (selectedMonth c)))
                       (monthly_stock db) of
                  None \<Rightarrow> 0
                | Some p \<Rightarrow> (case actual_closing_stock p of None \<Rightarrow> 0 | Some v \<Rightarrow> v)),
             actual_closing_stock = None, excess = None\<rparr>]"
proof -
  let ?prev = "previousPeriodKey (selectedMonth c)"
  have k: "lastMonthFormatted (utcOffset e) (selectedMonth c) = ?prev"
    using assms(1,2) by (rule lastMonthFormatted_ahead_of_UTC)
  have s: "single (select_monthly_stock e db
             (\<lambda>r. station_id r = stationId c \<and> product_type r = pt \<and> month_year r = ?prev))
           = find (same_key (stationId c) pt ?prev) (monthly_stock db)"
    using assms(3) single_same_key [OF assms(5)]
    by (simp add: select_monthly_stock_def)
  show ?thesis
    using assms(4,6)
    by (simp add: initializeMonthlyStock_def k s nullOrZero_case insert_monthly_stock_def
        loadMonthlyStocks_snd split: option.splits)
qed

text \<open>
  C1. The claim: for every station, product and period key P+1, \<open>initializePeriod\<close>
  sets the new record's opening stock to the closing stock of the record of the prior
  period P when that record exists and is reconciled, and to 0 otherwise. The code
  does so where the local clock is at or ahead of UTC (lemma
  \<open>initialize_carries_forward_ahead_of_UTC\<close>). Behind UTC it looks up the wrong
  period: with February 2024 reconciled at a closing stock of 150, initializing March
  2024 in New York finds no record for January and opens March with 0; the same call
  in Lagos opens it with 150.
\<close>

theorem C1_carry_forward_behind_UTC:
  "monthly_stock (snd (initializeMonthlyStock new_york ''PMS'' (page_march, db_february)))
     = [february_row, march_row\<lparr>opening_stock := 0\<rparr>]
   \<and> monthly_stock (snd (initializeMonthlyStock lagos ''PMS'' (page_march, db_february)))
     = [february_row, march_row]"
  by code_simp

section \<open>Estimating the closing stock\<close>

text \<open>
  Where the local clock is at or ahead of UTC and the ledger answers, the estimate sums
  the sales volumes of the month's ledger entries (an absent volume counts 0) and
  subtracts the sum from the opening stock of the product's loaded record (0 without
  one). When the ledger does not answer, both figures are 0. The operation returns
  the estimate only; it has no repository to hand back.
\<close>

lemma estimate_ahead_of_UTC:
  assumes "0 \<le> utcOffset e" and "isPeriodKey (selectedMonth c)" and "\<not> readsFail e"
  shows "calculateEstimatedStock e pt (c, db) =
           \<lparr>totalSalesVolume =
              sum_list (map (nullOrZero \<circ> sales_volume)
                 (monthSales (stationId c) (selectedMonth c) pt db)),
            estimatedStock =
              (case find (\<lambda>s. product_type s = pt) (monthlyStocks c) of
                 None \<Rightarrow> 0
               | Some s \<Rightarrow> opening_stock s)
              - sum_list (map (nullOrZero \<circ> sales_volume)
                  (monthSales (stationId c) (selectedMonth c) pt db))\<rparr>"
proof -
  have me: "monthEnd (utcOffset e) (selectedMonth c) = nextPeriodKey (selectedMonth c)"
    using assms(1,2) by (rule monthEnd_ahead_of_UTC)
  have sel: "select_fuel_records e db flt = Inr (filter flt (fuel_records db))" for flt
    using assms(3) by (simp add: select_fuel_records_def)
  have tot: "foldl (\<lambda>sum record. sum + nullOrZero (sales_volume record)) 0 xs
               = sum_list (map (nullOrZero \<circ> sales_volume) xs)" for xs
    by (simp add: foldl_plus comp_def)
  show ?thesis
    unfolding calculateEstimatedStock_def monthSales_def
    by (cases "find (\<lambda>s. product_type s = pt) (monthlyStocks c)")
       (simp_all add: me sel tot realOrZero_id Let_def)
qed

lemma estimate_lookup_fails:
  assumes "readsFail e"
  shows "calculateEstimatedStock e pt (c, db) = \<lparr>totalSalesVolume = 0, estimatedStock = 0\<rparr>"
  using assms by (simp add: calculateEstimatedStock_def select_fuel_records_def)

text \<open>
  C6. The claim: \<open>estimateClosingStock\<close> returns the sum of the sales volumes of all
  ledger entries from the period key, inclusive, to the start of the next month,
  exclusive, and the opening stock minus that sum; a failed lookup gives two zeros.
  The code does so where the local clock is at or ahead of UTC (lemmas
  \<open>estimate_ahead_of_UTC\<close>, \<open>estimate_lookup_fails\<close>). Behind UTC the end of the range
  is not the start of the next month: in New York the range for March 2024 ends on 29
  March, the sale of 10 litres on 30 March is left out, and the estimate is 0 sold and
  150 left; in Lagos it is 10 sold and 140 left.
\<close>

theorem C6_estimate_behind_UTC:
  "monthEnd (utcOffset new_york) (selectedMonth page_march_loaded)
     = \<lparr>year = 2024, month = 3, day = 29\<rparr>
   \<and> calculateEstimatedStock new_york ''PMS'' (page_march_loaded, db_march)
     = \<lparr>totalSalesVolume = 0, estimatedStock = 150\<rparr>
   \<and> calculateEstimatedStock lagos ''PMS'' (page_march_loaded, db_march)
     = \<lparr>totalSalesVolume = 10, estimatedStock = 140\<rparr>"
  by code_simp

section \<open>Finalizing a period\<close>

text \<open>
  With a record selected and a repository that accepts the update, finalizing writes
  the parsed amount and its difference from the selected record's opening stock, each
  as JSON has it, to every record with the selected identifier, and reports success.
\<close>

lemma finalize_writes:
  assumes "selectedStock c = Some stock" and "\<not> writesFail e"
  shows "snd (updateActualClosingStock e (c, db)) =
           db\<lparr>monthly_stock :=
             map (\<lambda>r. if row_id r = row_id stock
                       then r\<lparr>actual_closing_stock :=
                                toJSON (parseFloat (actualClosingStock c)),
                              excess := toJSON (js_sub (Num (opening_stock stock))
                                           (parseFloat (actualClosingStock c)))\<rparr>
                       else r) (monthly_stock db)\<rparr>"
    and "toasts (fst (updateActualClosingStock e (c, db))) = toasts c @ [ToastSuccess]"
  using assms
  by (simp_all add: updateActualClosingStock_def update_monthly_stock_def Let_def
      loadMonthlyStocks_snd loadMonthlyStocks_toasts toast_of_def)

text \<open>The two amounts of the examples, and their difference.\<close>

lemma parse_minus_e308: "parseFloat ''-1e308'' = Num (- e308)"
  by (simp add: parse_defs e308_def)

lemma e308_minus_minus_e308: "js_sub (Num e308) (Num (- e308)) = PInf"
  by (simp add: dbl_def maxRange_def e308_def)

lemma finalize_b:
  "snd (updateActualClosingStock lagos (dialog_on row_b ''-1e308'', db_b)) =
     db_b\<lparr>monthly_stock := [row_b\<lparr>actual_closing_stock := Some (- e308), excess := None\<rparr>]\<rparr>"
proof -
  have h1: "selectedStock (dialog_on row_b ''-1e308'') = Some row_b"
    by (simp add: dialog_on_def)
  have h2: "\<not> writesFail lagos"
    by (simp add: lagos_def)
  have a: "actualClosingStock (dialog_on row_b ''-1e308'') = ''-1e308''"
    by (simp add: dialog_on_def)
  have o: "opening_stock row_b = e308"
    by (simp add: row_b_def)
  have r: "monthly_stock db_b = [row_b]"
    by (simp add: db_b_def)
  show ?thesis
    unfolding finalize_writes(1) [OF h1 h2] a o r parse_minus_e308 e308_minus_minus_e308
    by simp
qed

text \<open>
  C2, as claimed: for every existing record and every finite closing stock supplied,
  finalizing writes the excess, opening stock minus closing stock. With the record of
  March open at an opening stock of \<open>1e308\<close> and \<open>-1e308\<close> typed, both finite, the
  difference is beyond the range of finite doubles: the closing stock is written, the
  excess is written as absent, and success is reported.
\<close>

theorem C2_counterexample_excess_overflows:
  "parseFloat ''-1e308'' = Num (- e308)
   \<and> monthly_stock (snd (updateActualClosingStock lagos (dialog_on row_b ''-1e308'', db_b)))
     = [row_b\<lparr>actual_closing_stock := Some (- e308), excess := None\<rparr>]
   \<and> toasts (fst (updateActualClosingStock lagos (dialog_on row_b ''-1e308'', db_b)))
     = [ToastSuccess]"
proof -
  have h1: "selectedStock (dialog_on row_b ''-1e308'') = Some row_b"
    by (simp add: dialog_on_def)
  have h2: "\<not> writesFail lagos"
    by (simp add: lagos_def)
  have t: "toasts (dialog_on row_b ''-1e308'') = []"
    by (simp add: dialog_on_def page_march_def)
  show ?thesis
    unfolding finalize_b finalize_writes(2) [OF h1 h2] t
    using parse_minus_e308 by simp
qed

text \<open>
  C2, amended: for every existing record and every finite closing stock supplied,
  finalizing writes that closing stock, and writes the excess, opening stock minus
  closing stock, when that difference is within the range of finite doubles; a
  difference beyond the range is written as absent. A closing stock above the opening
  stock gives a negative excess and is not rejected. The amount is finite when the
  typed text parses to a finite number; the repository is taken to accept the update.
\<close>

theorem C2_finalize_writes_closing_and_excess_in_range:
  assumes "selectedStock c = Some stock"
      and "parseFloat (actualClosingStock c) = Num a"
      and "\<not> writesFail e"
      and "stock \<in> set (monthly_stock db)"
  shows "monthly_stock (snd (updateActualClosingStock e (c, db))) =
           map (\<lambda>r. if row_id r = row_id stock
                     then r\<lparr>actual_closing_stock := Some a,
                            excess := (if inRange (opening_stock stock - a)
                                       then Some (opening_stock stock - a) else None)\<rparr>
                     else r) (monthly_stock db)
         \<and> stock\<lparr>actual_closing_stock := Some a,
                  excess := (if inRange (opening_stock stock - a)
                             then Some (opening_stock stock - a) else None)\<rparr>
             \<in> set (monthly_stock (snd (updateActualClosingStock e (c, db))))
         \<and> toasts (fst (updateActualClosingStock e (c, db))) = toasts c @ [ToastSuccess]"
proof -
  let ?upd = "\<lambda>r. if row_id r = row_id stock
                   then r\<lparr>actual_closing_stock := Some a,
                          excess := (if inRange (opening_stock stock - a)
                                     then Some (opening_stock stock - a) else None)\<rparr>
                   else r"
  have db': "monthly_stock (snd (updateActualClosingStock e (c, db)))
               = map ?upd (monthly_stock db)"
    unfolding finalize_writes(1) [OF assms(1,3)] assms(2)
    by (simp add: toJSON_dbl)
  have "?upd stock \<in> set (map ?upd (monthly_stock db))"
    using assms(4) by (simp only: set_map image_eqI)
  then have "stock\<lparr>actual_closing_stock := Some a,
                  excess := (if inRange (opening_stock stock - a)
                             then Some (opening_stock stock - a) else None)\<rparr>
               \<in> set (monthly_stock (snd (updateActualClosingStock e (c, db))))"
    by (simp add: db')
  with db' finalize_writes(2) [OF assms(1,3), of db] show ?thesis by simp
qed

text \<open>
  Opening stock 500 and the amount 600 typed: the record gets closing stock 600 and
  excess -100, and success is reported.
\<close>

theorem C2_witness_shortage:
  "row_500\<lparr>actual_closing_stock := Some 600, excess := Some (- 100)\<rparr>
     \<in> set (monthly_stock (snd (updateActualClosingStock lagos (dialog_500 ''600'', db_500))))
   \<and> toasts (fst (updateActualClosingStock lagos (dialog_500 ''600'', db_500)))
     = [ToastSuccess]"
proof -
  have h1: "selectedStock (dialog_500 ''600'') = Some row_500"
    by (simp add: dialog_500_def)
  have h2: "parseFloat (actualClosingStock (dialog_500 ''600'')) = Num 600"
    by (simp add: dialog_500_def parse_defs)
  have h3: "\<not> writesFail lagos"
    by (simp add: lagos_def)
  have h4: "row_500 \<in> set (monthly_stock db_500)"
    by (simp add: db_500_def)
  have o: "opening_stock row_500 = 500"
    by (simp add: row_500_def)
  have t: "toasts (dialog_500 ''600'') = []"
    by (simp add: dialog_500_def page_march_def)
  have e: "(if inRange (opening_stock row_500 - 600)
            then Some (opening_stock row_500 - 600) else None) = Some (- 100)"
    by (simp add: o inRange_def maxRange_def)
  note th = C2_finalize_writes_closing_and_excess_in_range [OF h1 h2 h3 h4]
  from th have m: "row_500\<lparr>actual_closing_stock := Some 600,
                           excess := (if inRange (opening_stock row_500 - 600)
                                      then Some (opening_stock row_500 - 600) else None)\<rparr>
      \<in> set (monthly_stock (snd (updateActualClosingStock lagos (dialog_500 ''600'', db_500))))"
    by blast
  from th have n: "toasts (fst (updateActualClosingStock lagos (dialog_500 ''600'', db_500)))
      = toasts (dialog_500 ''600'') @ [ToastSuccess]"
    by blast
  from m [unfolded e] n [unfolded t] show ?thesis
    by simp
qed

lemma update_excess_has_closing:
  assumes "list_all excess_has_closing rows"
  shows "list_all excess_has_closing
           (map (\<lambda>r. if row_id r = i
                     then r\<lparr>actual_closing_stock := toJSON a,
                            excess := toJSON (js_sub (Num os) a)\<rparr>
                     else r) rows)"
  using assms by (cases a) (auto simp: list_all_iff excess_has_closing_def)

lemma update_paired:
  assumes "list_all paired rows" and "\<And>x. a = Num x \<Longrightarrow> inRange (os - x)"
  shows "list_all paired
           (map (\<lambda>r. if row_id r = i
                     then r\<lparr>actual_closing_stock := toJSON a,
                            excess := toJSON (js_sub (Num os) a)\<rparr>
                     else r) rows)"
  using assms by (cases a) (auto simp: list_all_iff paired_def toJSON_dbl)

lemma initialize_db:
  "monthly_stock (snd (initializeMonthlyStock e pt (c, db))) = monthly_stock db \<or>
   (\<exists>os. monthly_stock (snd (initializeMonthlyStock e pt (c, db))) = monthly_stock db @
       [\<lparr>row_id = fresh_id (monthly_stock db), station_id = stationId c, product_type = pt,
         month_year = selectedMonth c, opening_stock = os,
         actual_closing_stock = None, excess = None\<rparr>])"
  by (auto simp: initializeMonthlyStock_def insert_monthly_stock_def Let_def
      loadMonthlyStocks_snd split: sum.splits)

lemma initialize_paired:
  assumes "list_all paired (monthly_stock db)"
  shows "list_all paired (monthly_stock (snd (initializeMonthlyStock e pt (c, db))))"
  using initialize_db [of e pt c db] assms by (auto simp: paired_def)

lemma initialize_excess_has_closing:
  assumes "list_all excess_has_closing (monthly_stock db)"
  shows "list_all excess_has_closing
           (monthly_stock (snd (initializeMonthlyStock e pt (c, db))))"
  using initialize_db [of e pt c db] assms by (auto simp: excess_has_closing_def)

lemma finalize_excess_has_closing:
  assumes "list_all excess_has_closing (monthly_stock db)"
  shows "list_all excess_has_closing
           (monthly_stock (snd (updateActualClosingStock e (c, db))))"
proof (cases "selectedStock c")
  case None
  then show ?thesis using assms by (simp add: updateActualClosingStock_def)
next
  case (Some stock)
  show ?thesis
  proof (cases "writesFail e")
    case True
    then show ?thesis
      using Some assms
      by (simp add: updateActualClosingStock_def update_monthly_stock_def Let_def)
  next
    case False
    show ?thesis
      unfolding finalize_writes(1) [OF Some False]
      using update_excess_has_closing [OF assms] by simp
  qed
qed

lemma finalize_paired:
  assumes "list_all paired (monthly_stock db)" and "finalize_in_range c"
  shows "list_all paired (monthly_stock (snd (updateActualClosingStock e (c, db))))"
proof (cases "selectedStock c")
  case None
  then show ?thesis using assms by (simp add: updateActualClosingStock_def)
next
  case (Some stock)
  show ?thesis
  proof (cases "writesFail e")
    case True
    then show ?thesis
      using Some assms
      by (simp add: updateActualClosingStock_def update_monthly_stock_def Let_def)
  next
    case False
    have "\<And>x. parseFloat (actualClosingStock c) = Num x
            \<Longrightarrow> inRange (opening_stock stock - x)"
      using assms(2) Some by (simp add: finalize_in_range_def)
    then show ?thesis
      unfolding finalize_writes(1) [OF Some False]
      using update_paired [OF assms(1)] by simp
  qed
qed

lemma paired_excess_has_closing:
  "list_all paired rows \<Longrightarrow> list_all excess_has_closing rows"
  by (auto simp: list_all_iff paired_def excess_has_closing_def)

lemma run_excess_has_closing:
  "list_all excess_has_closing (monthly_stock (snd s)) \<Longrightarrow>
   list_all excess_has_closing (monthly_stock (snd (run steps s)))"
proof (induction steps arbitrary: s)
  case Nil
  then show ?case by simp
next
  case (Cons a steps)
  obtain c db where s: "s = (c, db)" by (cases s)
  show ?case
  proof (cases a)
    case (InitializePeriod e pt)
    then show ?thesis
      using Cons.IH [of "initializeMonthlyStock e pt s"] Cons.prems
        initialize_excess_has_closing [of db e pt c] s
      by simp
  next
    case (FinalizePeriod e)
    then show ?thesis
      using Cons.IH [of "updateActualClosingStock e s"] Cons.prems
        finalize_excess_has_closing [of db e c] s
      by simp
  next
    case (UserInput c')
    then show ?thesis
      using Cons.IH [of "(c', snd s)"] Cons.prems by simp
  qed
qed

lemma run_paired:
  "list_all paired (monthly_stock (snd s)) \<Longrightarrow> no_overflow steps s \<Longrightarrow>
   list_all paired (monthly_stock (snd (run steps s)))"
proof (induction steps arbitrary: s)
  case Nil
  then show ?case by simp
next
  case (Cons a steps)
  obtain c db where s: "s = (c, db)" by (cases s)
  show ?case
  proof (cases a)
    case (InitializePeriod e pt)
    then show ?thesis
      using Cons.IH [of "initializeMonthlyStock e pt s"] Cons.prems
        initialize_paired [of db e pt c] s
      by simp
  next
    case (FinalizePeriod e)
    then show ?thesis
      using Cons.IH [of "updateActualClosingStock e s"] Cons.prems
        finalize_paired [of db c e] s
      by simp
  next
    case (UserInput c')
    then show ?thesis
      using Cons.IH [of "(c', snd s)"] Cons.prems by simp
  qed
qed

text \<open>
  C3, as claimed: after every sequence of initializations and finalizations, closing
  stock and excess are both present or both absent. The record of March is open at an
  opening stock of \<open>1e308\<close>, both fields absent; \<open>-1e308\<close> is typed and March is
  finalized: the one update writes the closing stock and leaves the excess absent.
\<close>

theorem C3_counterexample_closing_without_excess:
  "list_all paired (monthly_stock db_b)
   \<and> monthly_stock (snd (run [FinalizePeriod lagos] (dialog_on row_b ''-1e308'', db_b)))
     = [row_b\<lparr>actual_closing_stock := Some (- e308), excess := None\<rparr>]
   \<and> \<not> list_all paired
       (monthly_stock (snd (run [FinalizePeriod lagos] (dialog_on row_b ''-1e308'', db_b))))"
  by (simp add: finalize_b) (simp add: paired_def db_b_def row_b_def march_row_def)

text \<open>
  C3, amended: after every sequence of initializations and finalizations, whatever
  the user does in between and whether or not the repository answers, no stock record
  has an excess without a closing stock; and every record has the two both present or
  both absent as long as no finalization's difference, opening stock minus closing
  stock, is beyond the range of finite doubles (such a finalization writes the
  closing stock and leaves the excess absent). The records are taken to have the two
  together at the start: initializing adds a record with both absent, finalizing
  writes both in one update.
\<close>

theorem C3_closing_and_excess_together_in_range:
  assumes "list_all paired (monthly_stock (snd s))"
  shows "list_all excess_has_closing (monthly_stock (snd (run steps s)))
       \<and> (no_overflow steps s \<longrightarrow> list_all paired (monthly_stock (snd (run steps s))))"
  using assms run_excess_has_closing [OF paired_excess_has_closing [OF assms], of steps]
    run_paired [of s steps]
  by blast

text \<open>
  February reconciled; March is initialized, the user opens the dialog and types 90,
  March is finalized: closing stock 90 and excess 60 appear together.
\<close>

theorem C3_witness_session:
  "list_all paired (monthly_stock (snd (page_march, db_february)))
   \<and> no_overflow [InitializePeriod lagos ''PMS'', UserInput (dialog_march ''90''),
                   FinalizePeriod lagos] (page_march, db_february)
   \<and> monthly_stock (snd (run [InitializePeriod lagos ''PMS'', UserInput (dialog_march ''90''),
                               FinalizePeriod lagos] (page_march, db_february)))
     = [february_row, march_row\<lparr>actual_closing_stock := Some 90, excess := Some 60\<rparr>]
   \<and> list_all paired
       (monthly_stock (snd (run [InitializePeriod lagos ''PMS'', UserInput (dialog_march ''90''),
                                 FinalizePeriod lagos] (page_march, db_february))))"
proof -
  let ?steps = "[InitializePeriod lagos ''PMS'', UserInput (dialog_march ''90''),
                 FinalizePeriod lagos]"
  have h: "list_all paired (monthly_stock (snd (page_march, db_february)))"
    by code_simp
  have i: "snd (initializeMonthlyStock lagos ''PMS'' (page_march, db_february))
             = \<lparr>monthly_stock = [february_row, march_row], fuel_records = [], expenses = []\<rparr>"
    by code_simp
  have h1: "selectedStock (dialog_march ''90'') = Some march_row"
    by (simp add: dialog_march_def)
  have h2: "\<not> writesFail lagos"
    by (simp add: lagos_def)
  have p: "parseFloat (actualClosingStock (dialog_march ''90'')) = Num 90"
    by (simp add: dialog_march_def parse_defs)
  have o: "opening_stock march_row = 150"
    by (simp add: march_row_def)
  have x: "dbl 60 = Num 60"
    by (simp add: dbl_def maxRange_def)
  have n: "no_overflow ?steps (page_march, db_february)"
    by (simp add: finalize_in_range_def h1 p o inRange_def maxRange_def)
  have r: "monthly_stock (snd (run ?steps (page_march, db_february)))
             = [february_row, march_row\<lparr>actual_closing_stock := Some 90, excess := Some 60\<rparr>]"
    by (simp add: i finalize_writes(1) [OF h1 h2] p o x)
       (simp add: february_row_def march_row_def)
  from C3_closing_and_excess_together_in_range [OF h, of ?steps] h n r show ?thesis
    by blast
qed

section \<open>Initializing a period twice\<close>

text \<open>
  C4. When a record for the station, product and period already exists, initializing
  again leaves the repository as it is (the insert is rejected, nothing is updated, so
  the record keeps its opening stock) and raises the error toast.
\<close>

theorem C4_second_initialize_rejected:
  assumes "list_ex (same_key (stationId c) pt (selectedMonth c)) (monthly_stock db)"
  shows "initializeMonthlyStock e pt (c, db)
           = (toast_of (ToastError ''Failed to initialize stock'') c, db)"
  using assms
  by (simp add: initializeMonthlyStock_def insert_monthly_stock_def Let_def)

text \<open>March exists with opening stock 150; initializing March again changes nothing.\<close>

theorem C4_witness_march_again:
  "list_ex (same_key (stationId page_march_loaded) ''PMS'' (selectedMonth page_march_loaded))
     (monthly_stock db_march)
   \<and> snd (initializeMonthlyStock lagos ''PMS'' (page_march_loaded, db_march)) = db_march
   \<and> toasts (fst (initializeMonthlyStock lagos ''PMS'' (page_march_loaded, db_march)))
     = [ToastError ''Failed to initialize stock'']"
proof -
  have h: "list_ex (same_key (stationId page_march_loaded) ''PMS''
             (selectedMonth page_march_loaded)) (monthly_stock db_march)"
    by code_simp
  have t: "toasts page_march_loaded = []"
    by (simp add: page_march_loaded_def page_march_def)
  from C4_second_initialize_rejected [OF h, of lagos] h show ?thesis
    by (simp add: toast_of_def t)
qed

section \<open>Finalizing with text that is not a number\<close>

text \<open>
  C5, as claimed: a non-numeric amount supplied to \<open>finalizePeriod\<close> is rejected as a
  validation error before any write. The operation has no such check. With the text
  \<open>abc\<close> typed in the dialog on the open March record, the amount parses to \<open>NaN\<close>,
  the update goes out, and the page reports success.
\<close>

theorem C5_counterexample_not_rejected:
  "parseFloat ''abc'' = NaN
   \<and> toasts (fst (updateActualClosingStock lagos (dialog_march ''abc'', db_march)))
     = [ToastSuccess]
   \<and> isDialogOpen (fst (updateActualClosingStock lagos (dialog_march ''abc'', db_march)))
     = False"
  by code_simp

text \<open>
  C5, amended: finalizing does not validate the amount. When the typed text does not
  parse as a number, the update is still issued: it writes closing stock and excess
  both as absent on the selected record, and success is reported unless the
  repository call itself fails. Keeping such text out is left to the page (a numeric
  input, and a button disabled while the field is empty).
\<close>

theorem C5_unparsable_amount_written_as_absent:
  assumes "selectedStock c = Some stock"
      and "parseFloat (actualClosingStock c) = NaN"
      and "\<not> writesFail e"
  shows "monthly_stock (snd (updateActualClosingStock e (c, db))) =
           map (\<lambda>r. if row_id r = row_id stock
                     then r\<lparr>actual_closing_stock := None, excess := None\<rparr>
                     else r) (monthly_stock db)
         \<and> toasts (fst (updateActualClosingStock e (c, db))) = toasts c @ [ToastSuccess]"
  using assms
  by (simp add: updateActualClosingStock_def update_monthly_stock_def Let_def
      loadMonthlyStocks_snd loadMonthlyStocks_toasts toast_of_def)

text \<open>
  The dialog still holds the open March record while the repository's copy has been
  reconciled in the meantime (closing 90, excess 60); \<open>abc\<close> is typed: both fields of
  the repository's record are written back to absent, and success is reported.
\<close>

theorem C5_witness_fields_cleared:
  "monthly_stock (snd (updateActualClosingStock lagos
      (dialog_march ''abc'',
       db_march\<lparr>monthly_stock :=
         [february_row, march_row\<lparr>actual_closing_stock := Some 90, excess := Some 60\<rparr>]\<rparr>)))
     = [february_row, march_row]
   \<and> toasts (fst (updateActualClosingStock lagos
      (dialog_march ''abc'',
       db_march\<lparr>monthly_stock :=
         [february_row, march_row\<lparr>actual_closing_stock := Some 90, excess := Some 60\<rparr>]\<rparr>)))
     = [ToastSuccess]"
proof -
  have h1: "selectedStock (dialog_march ''abc'') = Some march_row"
    by (simp add: dialog_march_def)
  have h2: "parseFloat (actualClosingStock (dialog_march ''abc'')) = NaN"
    by code_simp
  have h3: "\<not> writesFail lagos"
    by (simp add: lagos_def)
  have t: "toasts (dialog_march ''abc'') = []"
    by (simp add: dialog_march_def page_march_loaded_def page_march_def)
  have m: "map (\<lambda>r. if row_id r = row_id march_row
                     then r\<lparr>actual_closing_stock := None, excess := None\<rparr>
                     else r)
             (monthly_stock (db_march\<lparr>monthly_stock :=
                [february_row,
                 march_row\<lparr>actual_closing_stock := Some 90, excess := Some 60\<rparr>]\<rparr>))
           = [february_row, march_row]"
    by (simp add: february_row_def march_row_def)
  note th = C5_unparsable_amount_written_as_absent [OF h1 h2 h3,
      of "db_march\<lparr>monthly_stock :=
            [february_row,
             march_row\<lparr>actual_closing_stock := Some 90, excess := Some 60\<rparr>]\<rparr>"]
  from th [unfolded m t] show ?thesis
    by (simp only: append_Nil)
qed

section \<open>Submitting a fuel record\<close>

lemma getProductPrice_priceOf: "getProductPrice c pt = Num (priceOf c pt)"
  by (simp add: getProductPrice_def priceOf_def orZero_def split: option.splits)

text \<open>
  With a pump selected that the form knows and a repository that accepts the insert,
  submitting adds exactly one record and reports success. Each amount is persisted as
  JSON has the number computed for it.
\<close>

lemma handleSubmit_insert:
  assumes "selectedPump c \<noteq> []"
      and "find (\<lambda>p. pump_row_id p = selectedPump c) (pumps c) = Some pump"
      and "\<not> writesFail e"
  shows "fuel_records (snd (handleSubmit e (c, db))) = fuel_records db @
           [\<lparr>station_code = stationId c, pump_id = selectedPump c,
             fuel_product_type = pump_product_type pump, record_date = recordDate c,
             fuel_opening_stock = toJSON (orZero (parseFloat (openingStock c))),
             closing_stock = toJSON (orZero (parseFloat (closingStock c))),
             meter_opening = toJSON (orZero (parseFloat (meterOpening c))),
             meter_closing = toJSON (orZero (parseFloat (meterClosing c))),
             sales_volume = toJSON (calculateSalesVolume c),
             price_per_litre = Some (priceOf c (pump_product_type pump)),
             total_sales = toJSON (js_mul (calculateSalesVolume c)
                                     (Num (priceOf c (pump_product_type pump)))),
             input_mode = ''manual''\<rparr>]"
    and "toasts (fst (handleSubmit e (c, db))) = toasts c @ [ToastSuccess]"
  using assms
  by (simp_all add: handleSubmit_def insert_fuel_record_def getProductPrice_priceOf
      toast_of_def Let_def)

text \<open>
  The sales volume for two finite readings: an infinity when the difference reaches
  beyond the range of finite doubles, the difference clamped at 0 otherwise.
\<close>

lemma salesVolume_finite_readings:
  assumes "orZero (parseFloat (meterOpening c)) = Num mo"
      and "orZero (parseFloat (meterClosing c)) = Num mc"
  shows "calculateSalesVolume c =
           (if maxRange \<le> mc - mo then PInf else Num (max 0 (mc - mo)))"
proof -
  have v: "calculateSalesVolume c = js_max (Num 0) (dbl (mc - mo))"
    using assms by (simp add: calculateSalesVolume_def)
  show ?thesis
  proof (cases "maxRange \<le> mc - mo")
    case True
    then show ?thesis by (simp add: v dbl_def)
  next
    case False
    show ?thesis
    proof (cases "mc - mo \<le> - maxRange")
      case True
      with maxRange_pos have "max 0 (mc - mo) = 0" by simp
      with True False show ?thesis by (simp add: v dbl_def)
    next
      case False
      with \<open>\<not> maxRange \<le> mc - mo\<close> show ?thesis by (simp add: v dbl_def)
    qed
  qed
qed

lemma toJSON_mul_infinity: "toJSON (js_mul PInf (Num p)) = None"
  by simp

lemma toJSON_mul_zero:
  "toJSON (js_mul x (Num 0)) = (if toJSON x = None then None else Some 0)"
  by (cases x) (simp_all add: dbl_zero)

text \<open>The amounts of the examples.\<close>

lemma parse_small:
  "parseFloat ''150'' = Num 150" "parseFloat ''140'' = Num 140"
  "parseFloat ''100'' = Num 100" "parseFloat ''40'' = Num 40"
  "parseFloat ''160'' = Num 160"
  "parseFloat ''0'' = Num 0" "parseFloat [] = NaN"
  by (simp_all add: parse_defs)

lemma parse_e308: "parseFloat ''1e308'' = Num e308"
  by (simp add: parse_defs e308_def)

lemma orZero_e308: "orZero (Num e308) = Num e308" "orZero (Num (- e308)) = Num (- e308)"
  by (simp_all add: orZero_def e308_def)

lemma pumps_of_form:
  "find (\<lambda>p. pump_row_id p = ''P1'') (pumps (form_filled pump os cs mo mc)) =
     Some \<lparr>pump_row_id = ''P1'', pump_number = 1, pump_product_type = ''PMS'',
           tank_id = ''T1''\<rparr>"
  "find (\<lambda>p. pump_row_id p = ''P2'') (pumps (form_filled pump os cs mo mc)) =
     Some \<lparr>pump_row_id = ''P2'', pump_number = 2, pump_product_type = ''LPG'',
           tank_id = ''T2''\<rparr>"
  "priceOf (form_filled pump os cs mo mc) ''PMS'' = 650"
  "priceOf (form_filled pump os cs mo mc) ''LPG'' = 0"
  by (simp_all add: form_filled_def priceOf_def)

lemma fields_of_form:
  "selectedPump (form_filled pump os cs mo mc) = pump"
  "openingStock (form_filled pump os cs mo mc) = os"
  "closingStock (form_filled pump os cs mo mc) = cs"
  "meterOpening (form_filled pump os cs mo mc) = mo"
  "meterClosing (form_filled pump os cs mo mc) = mc"
  "stationId (form_filled pump os cs mo mc) = ''S1''"
  "recordDate (form_filled pump os cs mo mc) = \<lparr>year = 2024, month = 3, day = 5\<rparr>"
  "toasts (form_filled pump os cs mo mc) = []"
  by (simp_all add: form_filled_def)

text \<open>
  C8, as claimed: the persisted sales volume equals meter closing minus meter opening.
  With meter opening 100 and meter closing 40 the difference is -60, and the record
  is persisted with sales volume 0 and total sales 0.
\<close>

theorem C8_counterexample_meter_rolled_back:
  "fuel_records (snd (handleSubmit lagos
      (form_filled ''P1'' ''150'' ''140'' ''100'' ''40'', db_empty)))
     = [\<lparr>station_code = ''S1'', pump_id = ''P1'', fuel_product_type = ''PMS'',
         record_date = \<lparr>year = 2024, month = 3, day = 5\<rparr>,
         fuel_opening_stock = Some 150, closing_stock = Some 140,
         meter_opening = Some 100, meter_closing = Some 40, sales_volume = Some 0,
         price_per_litre = Some 650, total_sales = Some 0, input_mode = ''manual''\<rparr>]"
proof -
  let ?c = "form_filled ''P1'' ''150'' ''140'' ''100'' ''40''"
  have h1: "selectedPump ?c \<noteq> []"
    by (simp add: fields_of_form)
  have h2: "find (\<lambda>p. pump_row_id p = selectedPump ?c) (pumps ?c) =
              Some \<lparr>pump_row_id = ''P1'', pump_number = 1, pump_product_type = ''PMS'',
                    tank_id = ''T1''\<rparr>"
    by (simp add: fields_of_form pumps_of_form)
  have h3: "\<not> writesFail lagos"
    by (simp add: lagos_def)
  have v: "calculateSalesVolume ?c = Num 0"
    by (simp add: calculateSalesVolume_def fields_of_form parse_small orZero_def dbl_def
        maxRange_def)
  show ?thesis
    unfolding handleSubmit_insert(1) [OF h1 h2 h3] v
    by (simp add: fields_of_form pumps_of_form parse_small orZero_def dbl_zero db_empty_def)
qed

text \<open>
  C8, amended: for every fuel record submitted through the form with finite meter
  readings, the persisted sales volume equals meter closing minus meter opening when
  that difference is positive and 0 otherwise (both readings as persisted), and the
  persisted total sales equals that sales volume multiplied by the product's price per
  litre (0 when the product has no price row), as long as the difference and the
  product are within the range of finite doubles; a sales volume or a total beyond
  the range is persisted as absent.
\<close>

theorem C8_sales_volume_clamped_at_zero:
  assumes "selectedPump c \<noteq> []"
      and "find (\<lambda>p. pump_row_id p = selectedPump c) (pumps c) = Some pump"
      and "\<not> writesFail e"
      and "orZero (parseFloat (meterOpening c)) = Num mo"
      and "orZero (parseFloat (meterClosing c)) = Num mc"
  shows "\<exists>r. fuel_records (snd (handleSubmit e (c, db))) = fuel_records db @ [r]
           \<and> meter_opening r = Some mo \<and> meter_closing r = Some mc
           \<and> sales_volume r =
               (if mc - mo < maxRange then Some (max 0 (mc - mo)) else None)
           \<and> price_per_litre r = Some (priceOf c (pump_product_type pump))
           \<and> total_sales r =
               (if mc - mo < maxRange
                   \<and> inRange (max 0 (mc - mo) * priceOf c (pump_product_type pump))
                then Some (max 0 (mc - mo) * priceOf c (pump_product_type pump))
                else None)"
proof -
  note v = salesVolume_finite_readings [OF assms(4,5)]
  show ?thesis
  proof (cases "maxRange \<le> mc - mo")
    case True
    then show ?thesis
      unfolding handleSubmit_insert(1) [OF assms(1-3)] v assms(4,5)
      by (simp add: toJSON_mul_infinity)
  next
    case False
    then show ?thesis
      unfolding handleSubmit_insert(1) [OF assms(1-3)] v assms(4,5)
      by (simp add: toJSON_dbl)
  qed
qed

text \<open>
  Meter opening 100, meter closing 160, PMS at 650: sales volume 60, total sales
  39000.
\<close>

theorem C8_witness_sixty_litres:
  "map sales_volume (fuel_records (snd (handleSubmit lagos
      (form_filled ''P1'' ''150'' ''90'' ''100'' ''160'', db_empty)))) = [Some 60]
   \<and> map total_sales (fuel_records (snd (handleSubmit lagos
      (form_filled ''P1'' ''150'' ''90'' ''100'' ''160'', db_empty)))) = [Some 39000]"
proof -
  let ?c = "form_filled ''P1'' ''150'' ''90'' ''100'' ''160''"
  let ?pump = "\<lparr>pump_row_id = ''P1'', pump_number = 1, pump_product_type = ''PMS'',
                tank_id = ''T1''\<rparr>"
  have h1: "selectedPump ?c \<noteq> []"
    by (simp add: fields_of_form)
  have h2: "find (\<lambda>p. pump_row_id p = selectedPump ?c) (pumps ?c) = Some ?pump"
    by (simp add: fields_of_form pumps_of_form)
  have h3: "\<not> writesFail lagos"
    by (simp add: lagos_def)
  have h4: "orZero (parseFloat (meterOpening ?c)) = Num 100"
    by (simp add: fields_of_form parse_small orZero_def)
  have h5: "orZero (parseFloat (meterClosing ?c)) = Num 160"
    by (simp add: fields_of_form parse_small orZero_def)
  have p: "priceOf ?c (pump_product_type ?pump) = 650"
    by (simp add: pumps_of_form)
  have e: "fuel_records db_empty = []"
    by (simp add: db_empty_def)
  have q: "(160::real) - 100 < maxRange" "inRange (max 0 (160 - 100) * 650)"
    by (simp_all add: inRange_def maxRange_def)
  from C8_sales_volume_clamped_at_zero [OF h1 h2 h3 h4 h5, of db_empty]
  obtain r where "fuel_records (snd (handleSubmit lagos (?c, db_empty))) = [r]"
      and "sales_volume r = Some (max 0 (160 - 100))"
      and "total_sales r = Some (max 0 (160 - 100) * 650)"
    unfolding e p using q by auto
  then show ?thesis by simp
qed

text \<open>
  C9, as claimed: when no price row exists for the pump's product, the record is
  inserted with price per litre 0 and therefore total sales 0. With the LPG pump,
  which has no price row, meter opening \<open>-1e308\<close> and meter closing \<open>1e308\<close>, the
  difference is beyond the range of finite doubles: the sales volume is an infinity,
  the total is an infinity times zero, and both are persisted as absent.
\<close>

theorem C9_counterexample_total_absent:
  "fuel_records (snd (handleSubmit lagos
      (form_filled ''P2'' ''0'' ''0'' ''-1e308'' ''1e308'', db_empty)))
     = [\<lparr>station_code = ''S1'', pump_id = ''P2'', fuel_product_type = ''LPG'',
         record_date = \<lparr>year = 2024, month = 3, day = 5\<rparr>,
         fuel_opening_stock = Some 0, closing_stock = Some 0,
         meter_opening = Some (- e308), meter_closing = Some e308, sales_volume = None,
         price_per_litre = Some 0, total_sales = None, input_mode = ''manual''\<rparr>]"
proof -
  let ?c = "form_filled ''P2'' ''0'' ''0'' ''-1e308'' ''1e308''"
  have h1: "selectedPump ?c \<noteq> []"
    by (simp add: fields_of_form)
  have h2: "find (\<lambda>p. pump_row_id p = selectedPump ?c) (pumps ?c) =
              Some \<lparr>pump_row_id = ''P2'', pump_number = 2, pump_product_type = ''LPG'',
                    tank_id = ''T2''\<rparr>"
    by (simp add: fields_of_form pumps_of_form)
  have h3: "\<not> writesFail lagos"
    by (simp add: lagos_def)
  have v: "calculateSalesVolume ?c = PInf"
    by (simp add: calculateSalesVolume_def fields_of_form parse_e308 parse_minus_e308
        orZero_e308 e308_minus_minus_e308 del: js_sub.simps)
  show ?thesis
    unfolding handleSubmit_insert(1) [OF h1 h2 h3] v
    by (simp add: fields_of_form pumps_of_form parse_small parse_e308 parse_minus_e308
        orZero_e308 orZero_def db_empty_def)
qed

text \<open>
  C9, amended: for every submission that reaches the repository, a numeric field whose
  text does not parse as a number is persisted as 0 and the submission is accepted;
  when the pump's product has no price row the record is persisted with price per
  litre 0, and with total sales 0 whenever its sales volume is persisted. A sales
  volume beyond the range of finite doubles is persisted as absent, and then the total
  sales are absent too.
\<close>

theorem C9_unparsable_fields_and_missing_price_are_zero:
  assumes "selectedPump c \<noteq> []"
      and "find (\<lambda>p. pump_row_id p = selectedPump c) (pumps c) = Some pump"
      and "\<not> writesFail e"
  shows "\<exists>r. fuel_records (snd (handleSubmit e (c, db))) = fuel_records db @ [r]
           \<and> toasts (fst (handleSubmit e (c, db))) = toasts c @ [ToastSuccess]
           \<and> (parseFloat (openingStock c) = NaN \<longrightarrow> fuel_opening_stock r = Some 0)
           \<and> (parseFloat (closingStock c) = NaN \<longrightarrow> closing_stock r = Some 0)
           \<and> (parseFloat (meterOpening c) = NaN \<longrightarrow> meter_opening r = Some 0)
           \<and> (parseFloat (meterClosing c) = NaN \<longrightarrow> meter_closing r = Some 0)
           \<and> (find (\<lambda>p. pp_product_type p = pump_product_type pump) (prices c) = None
                \<longrightarrow> price_per_litre r = Some 0
                  \<and> total_sales r = (if sales_volume r = None then None else Some 0))"
proof -
  have p: "find (\<lambda>p. pp_product_type p = pump_product_type pump) (prices c) = None
             \<Longrightarrow> priceOf c (pump_product_type pump) = 0"
    by (simp add: priceOf_def)
  show ?thesis
    unfolding handleSubmit_insert [OF assms]
    using p by (auto simp: orZero_NaN toJSON_mul_zero)
qed

text \<open>
  The LPG pump, which has no price row, with all four fields left empty: every amount
  of the persisted record is 0 and success is reported.
\<close>

theorem C9_witness_empty_fields_no_price:
  "fuel_records (snd (handleSubmit lagos (form_filled ''P2'' [] [] [] [], db_empty)))
     = [\<lparr>station_code = ''S1'', pump_id = ''P2'', fuel_product_type = ''LPG'',
         record_date = \<lparr>year = 2024, month = 3, day = 5\<rparr>,
         fuel_opening_stock = Some 0, closing_stock = Some 0,
         meter_opening = Some 0, meter_closing = Some 0, sales_volume = Some 0,
         price_per_litre = Some 0, total_sales = Some 0, input_mode = ''manual''\<rparr>]
   \<and> toasts (fst (handleSubmit lagos (form_filled ''P2'' [] [] [] [], db_empty)))
     = [ToastSuccess]"
proof -
  let ?c = "form_filled ''P2'' [] [] [] []"
  let ?pump = "\<lparr>pump_row_id = ''P2'', pump_number = 2, pump_product_type = ''LPG'',
                tank_id = ''T2''\<rparr>"
  have h1: "selectedPump ?c \<noteq> []"
    by (simp add: fields_of_form)
  have h2: "find (\<lambda>p. pump_row_id p = selectedPump ?c) (pumps ?c) = Some ?pump"
    by (simp add: fields_of_form pumps_of_form)
  have h3: "\<not> writesFail lagos"
    by (simp add: lagos_def)
  have n: "parseFloat (openingStock ?c) = NaN" "parseFloat (closingStock ?c) = NaN"
      "parseFloat (meterOpening ?c) = NaN" "parseFloat (meterClosing ?c) = NaN"
    by (simp_all add: fields_of_form parse_small)
  have q: "find (\<lambda>p. pp_product_type p = pump_product_type ?pump) (prices ?c) = None"
    by (simp add: form_filled_def)
  have v: "calculateSalesVolume ?c = Num 0"
    by (simp add: calculateSalesVolume_def fields_of_form parse_small orZero_def dbl_zero)
  have whole: "fuel_records (snd (handleSubmit lagos (?c, db_empty)))
     = [\<lparr>station_code = ''S1'', pump_id = ''P2'', fuel_product_type = ''LPG'',
         record_date = \<lparr>year = 2024, month = 3, day = 5\<rparr>,
         fuel_opening_stock = Some 0, closing_stock = Some 0,
         meter_opening = Some 0, meter_closing = Some 0, sales_volume = Some 0,
         price_per_litre = Some 0, total_sales = Some 0, input_mode = ''manual''\<rparr>]"
    unfolding handleSubmit_insert(1) [OF h1 h2 h3] v
    by (simp add: fields_of_form pumps_of_form parse_small orZero_def dbl_zero db_empty_def)
  from C9_unparsable_fields_and_missing_price_are_zero [OF h1 h2 h3, of db_empty]
  have "toasts (fst (handleSubmit lagos (?c, db_empty))) = [ToastSuccess]"
    unfolding fields_of_form by auto
  with whole show ?thesis by simp
qed

section \<open>Aggregating the daily summary\<close>

















end
